theory Spec2Isabelle
  imports Complex_Main
begin

section \<open>Data model\<close>

text \<open>
  The bot keeps its data in Python dictionaries. The dictionary that \<open>on_submit\<close> of
  \<open>TaskDetailsModal\<close> builds for a submission always has the same keys, so it is a
  record here. Keys that are added to the dictionary later (\<open>aprovador_nome\<close> by
  \<open>handle_approval\<close>, the two formatted dates by \<open>TaskService.create_task\<close>) and values
  that may be Python's \<open>None\<close> are options.

  Strings are lists of characters; a character stands for a code point below 256, so the
  accented letters of the Portuguese labels are single characters, as in Python.
\<close>

record task_details =
  nome_da_tarefa :: string
  descricao :: string
  estimativa :: string
  data_inicio :: string
  data_fim :: string
  status :: string
  status_id :: nat
  project_id :: string
  project_name :: "string option"
  solicitante_id :: nat
  solicitante_nome :: string
  analista_id :: nat
  analista_nome :: string
  version_id :: "string option"
  version_name :: "string option"
  aprovador_nome :: "string option"
  data_inicio_formatada :: "string option"
  data_fim_formatada :: "string option"

section \<open>The pending-task registry (\<open>TaskService\<close>)\<close>

text \<open>
  \<open>TaskService.pending_tasks\<close> is a dictionary from the submission id to the details.
  The three methods are translated line by line; an assignment to a dictionary key cannot
  fail, so \<open>add_pending_task\<close> has no error result.
\<close>

type_synonym registry = "string \<rightharpoonup> task_details"

definition add_pending_task :: "string \<Rightarrow> task_details \<Rightarrow> registry \<Rightarrow> registry" where
  "add_pending_task task_id details pending = pending(task_id \<mapsto> details)"

definition get_pending_task :: "string \<Rightarrow> registry \<Rightarrow> task_details option" where
  "get_pending_task task_id pending = pending task_id"

definition remove_pending_task :: "string \<Rightarrow> registry \<Rightarrow> registry" where
  "remove_pending_task task_id pending =
     (if task_id \<in> dom pending then pending(task_id := None) else pending)"

text \<open>A sample submission, used where a statement is evaluated at a concrete input.\<close>

definition sample_task :: task_details where
  "sample_task =
     \<lparr> nome_da_tarefa = ''Deploy'', descricao = ''Ship it'', estimativa = ''2.5'',
       data_inicio = ''10/05/2025'', data_fim = ''15/05/2025'',
       status = ''Em andamento'', status_id = 2,
       project_id = ''7'', project_name = Some ''Infra'',
       solicitante_id = 11, solicitante_nome = ''Ana'',
       analista_id = 22, analista_nome = ''Bruno'',
       version_id = Some ''3'', version_name = Some ''v1'',
       aprovador_nome = None, data_inicio_formatada = None, data_fim_formatada = None \<rparr>"

section \<open>Python's string and number functions\<close>

text \<open>
  The functions of Python's \<open>str\<close>, \<open>int\<close> and \<open>float\<close> that the code calls, on
  the characters below code point 256. \<open>str.isdigit\<close> is true of the ten ASCII digits and
  also of the superscripts two, three and one (code points B2, B3 and B9), which
  \<open>int\<close>, \<open>float\<close> and the regular expression class \<open>\d\<close> do not accept.
\<close>

definition newline :: char where
  "newline = CHR 0x0A"

definition ascii_digit :: "char \<Rightarrow> bool" where
  "ascii_digit c = (c \<in> set ''0123456789'')"

definition isdigit_char :: "char \<Rightarrow> bool" where
  "isdigit_char c = (ascii_digit c \<or> c \<in> set [CHR 0xB2, CHR 0xB3, CHR 0xB9])"

definition isdigit :: "string \<Rightarrow> bool" where
  "isdigit s = (s \<noteq> [] \<and> list_all isdigit_char s)"

text \<open>\<open>s.replace(c, '', 1)\<close>: the first occurrence of \<open>c\<close> is removed.\<close>

fun replace_first :: "char \<Rightarrow> string \<Rightarrow> string" where
  "replace_first c [] = []"
| "replace_first c (x # xs) = (if x = c then xs else x # replace_first c xs)"

text \<open>\<open>s.split(sep)\<close> for a separator of one character.\<close>

fun split_on :: "char \<Rightarrow> string \<Rightarrow> string list" where
  "split_on sep [] = [[]]"
| "split_on sep (c # cs) =
     (if c = sep then [] # split_on sep cs
      else (case split_on sep cs of [] \<Rightarrow> [[c]] | p # ps \<Rightarrow> (c # p) # ps))"

definition digit_value :: "char \<Rightarrow> nat" where
  "digit_value c = of_char c - 48"

definition nat_of_digits :: "string \<Rightarrow> nat" where
  "nat_of_digits s = foldl (\<lambda>acc c. 10 * acc + digit_value c) 0 s"

text \<open>\<open>str(n)\<close> and the \<open>{n}\<close> of an f-string, for an integer.\<close>

fun str_nat :: "nat \<Rightarrow> string" where
  "str_nat n =
     (if n < 10 then [''0123456789'' ! n]
      else str_nat (n div 10) @ [''0123456789'' ! (n mod 10)])"

declare str_nat.simps [simp del]

definition str_int :: "int \<Rightarrow> string" where
  "str_int i = (if i < 0 then CHR ''-'' # str_nat (nat (- i)) else str_nat (nat i))"

text \<open>
  \<open>int(s)\<close> for a string, base ten: white space around the number is dropped, one sign
  may lead, and single underscores may stand between digits. \<open>None\<close> is the
  \<open>ValueError\<close>.
\<close>

definition py_space :: "char \<Rightarrow> bool" where
  "py_space c =
     (c \<in> set [CHR 0x09, CHR 0x0A, CHR 0x0B, CHR 0x0C, CHR 0x0D, CHR 0x1C, CHR 0x1D,
                CHR 0x1E, CHR 0x1F, CHR 0x20, CHR 0x85, CHR 0xA0])"

definition strip :: "string \<Rightarrow> string" where
  "strip s = rev (dropWhile py_space (rev (dropWhile py_space s)))"

fun digit_groups :: "string \<Rightarrow> bool" where
  "digit_groups [] = False"
| "digit_groups [c] = ascii_digit c"
| "digit_groups (c # d # r) =
     (ascii_digit c \<and> (if d = CHR ''_'' then digit_groups r else digit_groups (d # r)))"

definition py_int_unsigned :: "string \<Rightarrow> int option" where
  "py_int_unsigned s =
     (if digit_groups s then Some (int (nat_of_digits (filter (\<lambda>c. c \<noteq> CHR ''_'') s)))
      else None)"

definition py_int :: "string \<Rightarrow> int option" where
  "py_int s =
     (case strip s of
        [] \<Rightarrow> None
      | c # r \<Rightarrow>
          if c = CHR ''-'' then map_option uminus (py_int_unsigned r)
          else if c = CHR ''+'' then py_int_unsigned r
          else py_int_unsigned (c # r))"

text \<open>
  \<open>float(s)\<close>, for the strings that reach it in \<open>format_duration\<close>: they have passed
  \<open>s.replace('.', '', 1).isdigit()\<close>, so they hold \<open>isdigit\<close> characters and at most one
  dot. On these \<open>float\<close> raises \<open>ValueError\<close> (\<open>None\<close>) exactly when a character is
  not an ASCII digit. A Python float is taken as the real number it denotes: the rounding
  of binary floating point is not modelled.
\<close>

definition py_float :: "string \<Rightarrow> real option" where
  "py_float s =
     (let whole = takeWhile (\<lambda>c. c \<noteq> CHR ''.'') s;
          decimals = drop 1 (dropWhile (\<lambda>c. c \<noteq> CHR ''.'') s)
      in if list_all ascii_digit (whole @ decimals) \<and> whole @ decimals \<noteq> []
         then Some (real (nat_of_digits (whole @ decimals)) / 10 ^ length decimals)
         else None)"

text \<open>\<open>int(x)\<close> for a float: the fraction is cut off, towards zero.\<close>

definition int_of_float :: "real \<Rightarrow> int" where
  "int_of_float x = (if 0 \<le> x then \<lfloor>x\<rfloor> else \<lceil>x\<rceil>)"

section \<open>\<open>utils/date_utils.py\<close>\<close>

text \<open>
  \<open>re.match(r'^\d{2}/\d{2}/\d{4}$', s)\<close>. The \<open>$\<close> of Python's \<open>re\<close> also matches just
  before one newline that ends the string.
\<close>

definition matches_date_regex :: "string \<Rightarrow> bool" where
  "matches_date_regex s =
     (let body = (if length s = 11 \<and> last s = newline then butlast s else s)
      in length body = 10 \<and>
         list_all ascii_digit (take 2 body) \<and> body ! 2 = CHR ''/'' \<and>
         list_all ascii_digit (take 2 (drop 3 body)) \<and> body ! 5 = CHR ''/'' \<and>
         list_all ascii_digit (drop 6 body))"

definition is_leap :: "int \<Rightarrow> bool" where
  "is_leap y = (y mod 4 = 0 \<and> (y mod 100 \<noteq> 0 \<or> y mod 400 = 0))"

definition days_in_month :: "int \<Rightarrow> int \<Rightarrow> int" where
  "days_in_month y m =
     (if m = 2 then (if is_leap y then 29 else 28)
      else if m = 4 \<or> m = 6 \<or> m = 9 \<or> m = 11 then 30 else 31)"

text \<open>
  \<open>datetime.datetime(year, month, day)\<close>: a \<open>ValueError\<close> (\<open>None\<close>) unless the three
  numbers name a day of the calendar, years 1 to 9999.
\<close>

definition datetime :: "int \<Rightarrow> int \<Rightarrow> int \<Rightarrow> (int \<times> int \<times> int) option" where
  "datetime year month day =
     (if 1 \<le> year \<and> year \<le> 9999 \<and> 1 \<le> month \<and> month \<le> 12 \<and>
         1 \<le> day \<and> day \<le> days_in_month year month
      then Some (year, month, day) else None)"

text \<open>\<open>a < b\<close> on two \<open>datetime\<close> values at midnight.\<close>

definition datetime_less :: "int \<times> int \<times> int \<Rightarrow> int \<times> int \<times> int \<Rightarrow> bool" where
  "datetime_less a b =
     (case (a, b) of ((y1, m1, d1), (y2, m2, d2)) \<Rightarrow>
        y1 < y2 \<or> (y1 = y2 \<and> (m1 < m2 \<or> (m1 = m2 \<and> d1 < d2))))"

text \<open>
  \<open>day, month, year = map(int, s.split('/'))\<close> followed by
  \<open>datetime.datetime(year, month, day)\<close>; every failure on the way is a \<open>ValueError\<close>.
\<close>

definition parse_date :: "string \<Rightarrow> (int \<times> int \<times> int) option" where
  "parse_date s =
     (case map py_int (split_on CHR ''/'' s) of
        [Some day, Some month, Some year] \<Rightarrow> datetime year month day
      | _ \<Rightarrow> None)"

definition validate_date :: "string \<Rightarrow> bool" where
  "validate_date date_str =
     (if date_str = [] then True
      else if \<not> matches_date_regex date_str then False
      else parse_date date_str \<noteq> None)"

definition convert_date_format :: "string \<Rightarrow> string" where
  "convert_date_format date_str =
     (if date_str = [] then []
      else if \<not> validate_date date_str then []
      else (case split_on CHR ''/'' date_str of
              [day, month, year] \<Rightarrow> year @ ''-'' @ month @ ''-'' @ day
            | _ \<Rightarrow> []))"

definition msg_end_before_start :: string where
  "msg_end_before_start =
     ''A data de t'' @ [CHR 0xE9] @ ''rmino n'' @ [CHR 0xE3] @ ''o pode ser anterior '' @
     [CHR 0xE0] @ '' data de in'' @ [CHR 0xED] @ ''cio.''"

definition msg_invalid_format :: string where
  "msg_invalid_format = ''Formato de data inv'' @ [CHR 0xE1] @ ''lido. Use DD/MM/AAAA.''"

definition compare_dates :: "string \<Rightarrow> string \<Rightarrow> bool \<times> string" where
  "compare_dates start_date end_date =
     (if start_date = [] \<or> end_date = [] then (True, [])
      else (case (parse_date start_date, parse_date end_date) of
              (Some start, Some end_day) \<Rightarrow>
                if datetime_less end_day start then (False, msg_end_before_start)
                else (True, [])
            | _ \<Rightarrow> (False, msg_invalid_format)))"

text \<open>
  \<open>format_duration(hours)\<close> takes a float (or an integer) or a string. The \<open>try\<close> of
  the source catches the \<open>ValueError\<close> of \<open>float\<close>; \<open>int\<close> of a finite float does not
  raise.
\<close>

datatype hours_arg = HoursFloat real | HoursStr string

definition format_hours :: "real \<Rightarrow> string" where
  "format_hours hours =
     (let horas_inteiras = int_of_float hours;
          minutos = int_of_float ((hours - of_int horas_inteiras) * 60)
      in if minutos > 0
         then ''PT'' @ str_int horas_inteiras @ ''H'' @ str_int minutos @ ''M''
         else ''PT'' @ str_int horas_inteiras @ ''H'')"

definition format_duration :: "hours_arg \<Rightarrow> string option" where
  "format_duration hours =
     (case hours of
        HoursStr s \<Rightarrow>
          if s = [] then None
          else if \<not> isdigit (replace_first CHR ''.'' s) then None
          else (case py_float s of None \<Rightarrow> None | Some h \<Rightarrow> Some (format_hours h))
      | HoursFloat h \<Rightarrow> Some (format_hours h))"


section \<open>The description of a created task (\<open>OpenProjectRepository.create_task\<close>)\<close>

text \<open>
  Lines 194 to 210 of \<open>services/openproject_service.py\<close>. The dictionary's
  \<open>solicitante_nome\<close> is always set by \<open>on_submit\<close>; \<open>aprovador_nome\<close> falls back to
  \<open>Aprovador\<close> when the key is absent. \<open>if x:\<close> on a string or \<open>None\<close> is false for
  the empty string and for \<open>None\<close>.
\<close>

definition description_text :: "task_details \<Rightarrow> string" where
  "description_text task_data =
     (let description = descricao task_data;
          solicitante = solicitante_nome task_data;
          aprovador = (case aprovador_nome task_data of None \<Rightarrow> ''Aprovador'' | Some a \<Rightarrow> a)
      in description @ [newline, newline]
         @ (if data_inicio task_data \<noteq> []
            then ''Data de in'' @ [CHR 0xED] @ ''cio: '' @ data_inicio task_data @ [newline]
            else [])
         @ (if data_fim task_data \<noteq> []
            then ''Data de t'' @ [CHR 0xE9] @ ''rmino: '' @ data_fim task_data @ [newline]
            else [])
         @ (case version_name task_data of
              None \<Rightarrow> []
            | Some v \<Rightarrow>
                if v \<noteq> [] then ''Vers'' @ [CHR 0xE3] @ ''o: '' @ v @ [newline] else [])
         @ ''Solicitado por: '' @ solicitante @ [newline]
         @ ''Aprovado por: '' @ aprovador)"

text \<open>
  The labelled lines that follow the free text: the start date, the due date and the
  version when they are given, then the requester and the approver.
\<close>

definition field_lines :: "task_details \<Rightarrow> string list" where
  "field_lines task_data =
     (if data_inicio task_data \<noteq> []
      then [''Data de in'' @ [CHR 0xED] @ ''cio: '' @ data_inicio task_data] else [])
     @ (if data_fim task_data \<noteq> []
        then [''Data de t'' @ [CHR 0xE9] @ ''rmino: '' @ data_fim task_data] else [])
     @ (case version_name task_data of
          None \<Rightarrow> []
        | Some v \<Rightarrow> if v \<noteq> [] then [''Vers'' @ [CHR 0xE3] @ ''o: '' @ v] else [])
     @ [''Solicitado por: '' @ solicitante_nome task_data,
        ''Aprovado por: '' @
          (case aprovador_nome task_data of None \<Rightarrow> ''Aprovador'' | Some a \<Rightarrow> a)]"

text \<open>
  The description as the specification words it: the fields that are present, in the fixed
  order, each on a line of its own, and nothing for a field that is absent.
\<close>

definition claimed_description_lines :: "task_details \<Rightarrow> string list" where
  "claimed_description_lines task_data =
     (if descricao task_data \<noteq> [] then [descricao task_data] else [])
     @ field_lines task_data"

text \<open>The fields other than the free text hold no line break.\<close>

definition single_line_fields :: "task_details \<Rightarrow> bool" where
  "single_line_fields task_data =
     (newline \<notin> set (data_inicio task_data) \<and> newline \<notin> set (data_fim task_data) \<and>
      newline \<notin> set (solicitante_nome task_data) \<and>
      newline \<notin> set (case version_name task_data of None \<Rightarrow> [] | Some v \<Rightarrow> v) \<and>
      newline \<notin> set (case aprovador_nome task_data of None \<Rightarrow> [] | Some a \<Rightarrow> a))"

text \<open>A submission with no description, no dates and no version, already approved.\<close>

definition bare_task :: task_details where
  "bare_task =
     sample_task\<lparr> descricao := [], data_inicio := [], data_fim := [], estimativa := [],
       version_id := None, version_name := None, aprovador_nome := Some ''Bruno'' \<rparr>"

section \<open>The outside world: calls and their outcomes\<close>

text \<open>
  Every \<open>await\<close> of the code on the Discord library or on the HTTP session is a call to
  the outside. The model records each call that is issued, in order, in the \<open>trace\<close> of
  the world, and takes the outcome of each call from an environment: which Discord calls
  raise, what the clock reads, and what the OpenProject server replies. The messages are
  the embeds that the code builds, named after their titles.
\<close>

datatype http_method = GET | POST

record payload =
  subject :: string
  description_raw :: string
  project_href :: string
  type_href :: string
  status_href :: string
  version_href :: "string option"
  startDate :: "string option"
  dueDate :: "string option"
  estimatedTime :: "string option"

datatype reaction = Star | ThumbsUp | ThumbsDown

datatype embed =
    ValidationErrorEmbed string
  | NoProjectEmbed
  | NewRequestEmbed string
  | RequestSentEmbed string
  | NotFoundEmbed
  | RequesterLookupErrorEmbed
  | ProcessingEmbed string
  | ApprovedAndCreatedEmbed string string
  | ApprovedEmbed string string
  | FeedbackEmbed
  | ThreadEmbed string
  | NotCreatedEmbed string
  | RejectedEmbed string string
  | RejectedConfirmEmbed string string
  | LoadingEmbed
  | ProjectListEmbed nat int
  | RefreshErrorEmbed
  | GenericErrorMessage

datatype call =
    Defer
  | FollowupSend embed
  | EditOriginalResponse embed
  | EditMessage embed
  | FetchUser nat
  | SendDM nat embed
  | ChannelSend nat string
  | AddReaction reaction
  | CreateThread string
  | ThreadSend embed
  | ThreadAddUser nat
  | DisableButtons
  | Http http_method string "payload option"

text \<open>
  The reply to an HTTP request: a status, the text of the body and the body as JSON
  (\<open>None\<close> when it does not decode), or a failure of the transport
  (\<open>aiohttp.ClientError\<close>). The JSON of the project listing is the list under
  \<open>_embedded.elements\<close>; the JSON of a created work package is its \<open>id\<close> and its
  \<open>_links.self.href\<close>.
\<close>

datatype 'a http_reply = Reply nat string "'a option" | ClientError

record raw_project =
  active :: bool
  raw_id :: "nat option"
  raw_name :: "string option"
  raw_identifier :: "string option"
  self_href :: string

record project =
  proj_id :: "nat option"
  proj_name :: "string option"
  proj_identifier :: "string option"
  proj_href :: string

record created_task =
  created_id :: "nat option"
  created_self_href :: string

record env =
  now :: real
  raises :: "call \<Rightarrow> bool"
  projects_reply :: "raw_project list http_reply"
  create_reply :: "created_task http_reply"

text \<open>
  The state of the process: the repository's configuration and project cache, and the
  service's registry. \<open>versions_cache\<close> is left out: no function below reads it.
\<close>

record world =
  base_url :: string
  api_key :: string
  projects_cache :: "project list"
  cache_timestamp :: real
  pending_tasks :: registry
  trace :: "call list"

text \<open>
  \<open>OpenProjectRepository.__init__\<close> and \<open>TaskService.__init__\<close>: the state of a fresh
  process. \<open>base_url.rstrip('/')\<close> drops the slashes at the end.
\<close>

definition fresh_world :: "string \<Rightarrow> string \<Rightarrow> world" where
  "fresh_world url key =
     \<lparr> base_url = rev (dropWhile (\<lambda>c. c = CHR ''/'') (rev url)), api_key = key,
       projects_cache = [], cache_timestamp = 0, pending_tasks = Map.empty, trace = [] \<rparr>"

text \<open>One Discord call: it is recorded, and the environment says whether it raises.\<close>

definition call :: "env \<Rightarrow> call \<Rightarrow> world \<Rightarrow> bool \<times> world" where
  "call e c w = (\<not> raises e c, w\<lparr>trace := trace w @ [c]\<rparr>)"

text \<open>Calls one after the other; the first that raises ends the sequence.\<close>

fun run_calls :: "env \<Rightarrow> call list \<Rightarrow> world \<Rightarrow> bool \<times> world" where
  "run_calls e [] w = (True, w)"
| "run_calls e (c # cs) w =
     (case call e c w of (True, w') \<Rightarrow> run_calls e cs w' | (False, w') \<Rightarrow> (False, w'))"

section \<open>\<open>OpenProjectRepository\<close>\<close>

text \<open>
  The errors are all \<open>OpenProjectError\<close> in the source and differ in their message; the
  constructors name the place that raises. An HTTP status of 400 or more is raised inside
  the \<open>try\<close> of \<open>_make_request\<close> and caught again by its \<open>except Exception\<close>, which raises
  the "unexpected" error.
\<close>

datatype openproject_error =
    NotConfigured
  | ConnectionFailed
  | DecodeFailed
  | UnexpectedError nat string
  | ProjectsFailed openproject_error
  | MissingProjectId
  | MissingTaskName
  | CreateFailed openproject_error

definition make_request ::
  "http_method \<Rightarrow> string \<Rightarrow> payload option \<Rightarrow> 'a http_reply \<Rightarrow> world \<Rightarrow>
   (openproject_error + 'a) \<times> world" where
  "make_request method url body reply w =
     (if base_url w = [] \<or> api_key w = [] then (Inl NotConfigured, w)
      else
        (let w' = w\<lparr>trace := trace w @ [Http method url body]\<rparr>
         in case reply of
              ClientError \<Rightarrow> (Inl ConnectionFailed, w')
            | Reply code txt js \<Rightarrow>
                if code \<ge> 400 then (Inl (UnexpectedError code txt), w')
                else (case js of
                        None \<Rightarrow> (Inl DecodeFailed, w')
                      | Some v \<Rightarrow> (Inr v, w'))))"

definition CACHE_DURATION :: real where
  "CACHE_DURATION = 3600"

definition project_of :: "raw_project \<Rightarrow> project" where
  "project_of p =
     \<lparr> proj_id = raw_id p, proj_name = raw_name p, proj_identifier = raw_identifier p,
       proj_href = self_href p \<rparr>"

definition get_projects :: "env \<Rightarrow> world \<Rightarrow> (openproject_error + project list) \<times> world" where
  "get_projects e w =
     (let current_time = now e
      in if projects_cache w \<noteq> [] \<and> current_time - cache_timestamp w < CACHE_DURATION
         then (Inr (projects_cache w), w)
         else
           (case make_request GET (base_url w @ ''/api/v3/projects'') None (projects_reply e) w of
              (Inl err, w') \<Rightarrow> (Inl (ProjectsFailed err), w')
            | (Inr elements, w') \<Rightarrow>
                (let plist = map project_of (filter active elements)
                 in (Inr plist,
                     w'\<lparr>projects_cache := plist, cache_timestamp := current_time\<rparr>))))"

text \<open>The payload of \<open>create_task\<close>, lines 194 to 254.\<close>

definition truthy :: "string option \<Rightarrow> string option" where
  "truthy v = (case v of None \<Rightarrow> None | Some s \<Rightarrow> if s = [] then None else Some s)"

definition build_payload :: "task_details \<Rightarrow> payload" where
  "build_payload task_data =
     \<lparr> subject = nome_da_tarefa task_data,
       description_raw = description_text task_data,
       project_href = ''/api/v3/projects/'' @ project_id task_data,
       type_href = ''/api/v3/types/1'',
       status_href = ''/api/v3/statuses/2'',
       version_href = map_option (\<lambda>v. ''/api/v3/versions/'' @ v) (truthy (version_id task_data)),
       startDate = truthy (data_inicio_formatada task_data),
       dueDate = truthy (data_fim_formatada task_data),
       estimatedTime =
         (if estimativa task_data \<noteq> [] then format_duration (HoursStr (estimativa task_data))
          else None) \<rparr>"

record create_result =
  task_id_op :: "nat option"
  ui_link :: "string option"
  api_link :: "string option"

text \<open>\<open>str(x)\<close> of a value that is a number or \<open>None\<close>, or a string or \<open>None\<close>.\<close>

definition str_opt_nat :: "nat option \<Rightarrow> string" where
  "str_opt_nat v = (case v of None \<Rightarrow> ''None'' | Some n \<Rightarrow> str_nat n)"

definition str_opt :: "string option \<Rightarrow> string" where
  "str_opt v = (case v of None \<Rightarrow> ''None'' | Some s \<Rightarrow> s)"

definition make_result :: "string \<Rightarrow> task_details \<Rightarrow> created_task \<Rightarrow> project list \<Rightarrow> create_result" where
  "make_result base task_data created plist =
     (case find (\<lambda>p. str_opt_nat (proj_id p) = project_id task_data) plist of
        Some p \<Rightarrow>
          \<lparr> task_id_op = created_id created,
            ui_link = Some (base @ ''/projects/'' @ str_opt (proj_identifier p) @ ''/work_packages/''
                            @ str_opt_nat (created_id created) @ ''/overview''),
            api_link = None \<rparr>
      | None \<Rightarrow>
          \<lparr> task_id_op = created_id created, ui_link = None,
            api_link = Some (base @ created_self_href created) \<rparr>)"

definition repository_create_task ::
  "env \<Rightarrow> task_details \<Rightarrow> world \<Rightarrow> (openproject_error + create_result) \<times> world" where
  "repository_create_task e task_data w =
     (if project_id task_data = [] then (Inl MissingProjectId, w)
      else if nome_da_tarefa task_data = [] then (Inl MissingTaskName, w)
      else
        (case make_request POST (base_url w @ ''/api/v3/work_packages'')
                (Some (build_payload task_data)) (create_reply e) w of
           (Inl err, w1) \<Rightarrow> (Inl (CreateFailed err), w1)
         | (Inr created, w1) \<Rightarrow>
             (case get_projects e w1 of
                (Inl err, w2) \<Rightarrow> (Inl (CreateFailed err), w2)
              | (Inr plist, w2) \<Rightarrow>
                  (Inr (make_result (base_url w2) task_data created plist), w2))))"

section \<open>\<open>TaskService.create_task\<close>\<close>

text \<open>
  The dictionary of the submission is the object that the registry holds, so what a
  handler assigns to one of its keys is seen through the registry for as long as the
  entry is registered. Ids are never reused (\<open>on_submit\<close> builds them from the user's id
  and the id of the interaction), so an entry under the id is that object.
\<close>

definition store_details :: "string \<Rightarrow> task_details \<Rightarrow> world \<Rightarrow> world" where
  "store_details tid task_data w =
     (if tid \<in> dom (pending_tasks w)
      then w\<lparr>pending_tasks := (pending_tasks w)(tid \<mapsto> task_data)\<rparr> else w)"

definition format_dates :: "task_details \<Rightarrow> task_details" where
  "format_dates task_data =
     (let d1 = (if data_inicio task_data \<noteq> []
                then task_data\<lparr>data_inicio_formatada :=
                       Some (convert_date_format (data_inicio task_data))\<rparr>
                else task_data)
      in if data_fim d1 \<noteq> []
         then d1\<lparr>data_fim_formatada := Some (convert_date_format (data_fim d1))\<rparr>
         else d1)"

definition create_task ::
  "env \<Rightarrow> string \<Rightarrow> task_details \<Rightarrow> world \<Rightarrow> (openproject_error + create_result) \<times> world" where
  "create_task e tid task_data w =
     repository_create_task e (format_dates task_data) (store_details tid (format_dates task_data) w)"

section \<open>The refresh button of the project selection (\<open>ProjectSelectView.refresh_projects\<close>)\<close>

definition ITEMS_PER_PAGE :: int where
  "ITEMS_PER_PAGE = 10"

record project_view =
  projects :: "project list"
  current_page :: nat
  total_pages :: int

text \<open>
  \<open>True\<close> in the result: the method returned; \<open>False\<close>: an exception left it, which
  the \<open>error_handler\<close> decorator logs (its first argument is the view, which has no
  \<open>followup\<close>, so no message is sent).
\<close>

definition refresh_projects ::
  "env \<Rightarrow> project_view \<Rightarrow> world \<Rightarrow> bool \<times> project_view \<times> world" where
  "refresh_projects e view w =
     (case call e (EditMessage LoadingEmbed) w of
        (False, w1) \<Rightarrow> (False, view, w1)
      | (True, w1) \<Rightarrow>
          (case get_projects e w1 of
             (Inl err, w2) \<Rightarrow>
               (case call e (EditOriginalResponse RefreshErrorEmbed) w2 of
                  (ok, w3) \<Rightarrow> (ok, view, w3))
           | (Inr ps, w2) \<Rightarrow>
               (let view' = view\<lparr> projects := ps,
                                  total_pages := (int (length ps) - 1) div ITEMS_PER_PAGE + 1,
                                  current_page := 0 \<rparr>
                in case call e (EditOriginalResponse
                                  (ProjectListEmbed (length ps) (total_pages view'))) w2 of
                     (True, w3) \<Rightarrow> (True, view', w3)
                   | (False, w3) \<Rightarrow>
                       (case call e (EditOriginalResponse RefreshErrorEmbed) w3 of
                          (ok, w4) \<Rightarrow> (ok, view', w4)))))"

text \<open>The number of HTTP requests in a trace, and those with a given method.\<close>

definition is_http :: "call \<Rightarrow> bool" where
  "is_http c = (case c of Http m u b \<Rightarrow> True | _ \<Rightarrow> False)"

definition is_post :: "call \<Rightarrow> bool" where
  "is_post c = (case c of Http m u b \<Rightarrow> m = POST | _ \<Rightarrow> False)"

definition fetches :: "world \<Rightarrow> nat" where
  "fetches w = length (filter is_http (trace w))"

section \<open>Submitting a request (\<open>TaskDetailsModal.on_submit\<close>)\<close>

text \<open>
  What a handler reads from the Discord interaction it is called with: the ids, the name
  of the user who acts, whether the interaction carries a message, the notification
  channel that \<open>notify_channel\<close> would write to (\<open>None\<close> when there is no guild, no
  configured channel or the channel is not found), and whether the guild knows the
  requester as a member.
\<close>

record interaction =
  interaction_id :: nat
  user_id :: nat
  user_display_name :: string
  has_message :: bool
  notification_channel :: "nat option"
  requester_is_member :: bool

text \<open>
  The modal: the values of its five text inputs and the \<open>task_data\<close> it was built with
  (the selected project and version, and the approver).
\<close>

record modal =
  task_name :: string
  task_description :: string
  task_estimate :: string
  start_date :: string
  due_date :: string
  selected_project_id :: "string option"
  selected_project_name :: "string option"
  aprovador_id :: nat
  aprovador_display_name :: string
  selected_version_id :: "string option"
  selected_version_name :: "string option"








text \<open>
  The validation of \<open>on_submit\<close> fails: one of its four checks on the estimate and the
  dates, or the check that a project was selected.
\<close>

definition validation_fails :: "modal \<Rightarrow> bool" where
  "validation_fails m =
     ((task_estimate m \<noteq> [] \<and> \<not> isdigit (replace_first CHR ''.'' (task_estimate m))) \<or>
      \<not> validate_date (start_date m) \<or> \<not> validate_date (due_date m) \<or>
      \<not> fst (compare_dates (start_date m) (due_date m)) \<or>
      truthy (selected_project_id m) = None)"

section \<open>Deciding a request (\<open>handle_approval\<close>)\<close>

text \<open>
  How a call of \<open>handle_approval\<close> ends: the id was not in the registry; the requester
  could not be fetched; the decision was carried out and the removal of line 390 was
  reached; or an exception left the function and reached the \<open>error_handler\<close> decorator.
\<close>

datatype outcome = NotFound | LookupFailed | Decided | Raised

datatype lookup = Finished outcome | Found task_details bool

definition default_reason :: string where
  "default_reason = ''N'' @ [CHR 0xE3] @ ''o especificado''"

text \<open>
  Lines 143 to 162: the handler defers the response and looks the id up. When the id is
  found it calls \<open>fetch_user\<close> for the requester and is suspended in the \<open>await\<close>
  until the call returns (\<open>True\<close>) or raises (\<open>False\<close>).
\<close>

definition approval_lookup :: "env \<Rightarrow> string \<Rightarrow> world \<Rightarrow> lookup \<times> world" where
  "approval_lookup e tid w =
     (case call e Defer w of
        (False, w1) \<Rightarrow> (Finished Raised, w1)
      | (True, w1) \<Rightarrow>
          (case get_pending_task tid (pending_tasks w1) of
             None \<Rightarrow>
               (case call e (FollowupSend NotFoundEmbed) w1 of
                  (ok, w2) \<Rightarrow> (Finished (if ok then NotFound else Raised), w2))
           | Some task_details \<Rightarrow>
               (case call e (FetchUser (solicitante_id task_details)) w1 of
                  (fetched, w2) \<Rightarrow> (Found task_details fetched, w2))))"

definition task_link :: "create_result \<Rightarrow> string" where
  "task_link r =
     (case ui_link r of
        Some l \<Rightarrow> l
      | None \<Rightarrow> (case api_link r of Some l \<Rightarrow> l | None \<Rightarrow> []))"

text \<open>
  Lines 291 to 319, the thread for discussion: its own \<open>try\<close> logs every exception, so
  the block never raises.
\<close>

definition create_thread :: "env \<Rightarrow> interaction \<Rightarrow> task_details \<Rightarrow> string \<Rightarrow> world \<Rightarrow> world" where
  "create_thread e i task_details link w =
     (if has_message i
      then snd (run_calls e
                  ([CreateThread (''Tarefa: '' @ nome_da_tarefa task_details),
                    ThreadSend (ThreadEmbed link)]
                   @ (if requester_is_member i
                      then [ThreadAddUser (solicitante_id task_details)] else [])) w)
      else w)"

text \<open>
  Lines 187 to 319, the body of the \<open>try\<close> of an approval. \<open>False\<close>: an exception was
  raised inside it. \<open>notify_channel\<close> catches its own exceptions. Building the embeds,
  writing to the log and \<open>asyncio.sleep\<close> are not calls to the outside and leave no
  mark in the model; the configured channel id is taken to be a number.
\<close>

definition approve_try ::
  "env \<Rightarrow> interaction \<Rightarrow> string \<Rightarrow> task_details \<Rightarrow> world \<Rightarrow> bool \<times> world" where
  "approve_try e i tid task_details w =
     (case call e (FollowupSend (ProcessingEmbed (nome_da_tarefa task_details))) w of
        (False, w1) \<Rightarrow> (False, w1)
      | (True, w1) \<Rightarrow>
          (case create_task e tid task_details w1 of
             (Inl err, w2) \<Rightarrow> (False, w2)
           | (Inr r, w2) \<Rightarrow>
               (case run_calls e
                       [SendDM (solicitante_id task_details)
                          (ApprovedAndCreatedEmbed (nome_da_tarefa task_details) (task_link r)),
                        EditOriginalResponse
                          (ApprovedEmbed (nome_da_tarefa task_details) (task_link r))] w2 of
                  (False, w3) \<Rightarrow> (False, w3)
                | (True, w3) \<Rightarrow>
                    (let w4 = (case notification_channel i of
                                 None \<Rightarrow> w3
                               | Some ch \<Rightarrow>
                                   snd (call e (ChannelSend ch (nome_da_tarefa task_details)) w3))
                     in case run_calls e
                               [SendDM (solicitante_id task_details) FeedbackEmbed,
                                AddReaction Star, AddReaction ThumbsUp, AddReaction ThumbsDown]
                               w4 of
                          (False, w5) \<Rightarrow> (False, w5)
                        | (True, w5) \<Rightarrow>
                            (True, create_thread e i task_details (task_link r) w5)))))"

text \<open>
  Lines 183 to 348. The handler writes the approver's name into the dictionary, runs the
  \<open>try\<close>, and on any exception sends the "approved, but not created" embed to the
  requester and to the approver. \<open>False\<close>: one of these two sends raised, and the
  exception leaves \<open>handle_approval\<close>.
\<close>

definition approve :: "env \<Rightarrow> interaction \<Rightarrow> string \<Rightarrow> task_details \<Rightarrow> world \<Rightarrow> bool \<times> world" where
  "approve e i tid task_details w =
     (let details = task_details\<lparr>aprovador_nome := Some (user_display_name i)\<rparr>
      in case approve_try e i tid details (store_details tid details w) of
           (True, w1) \<Rightarrow> (True, w1)
         | (False, w1) \<Rightarrow>
             run_calls e
               [SendDM (solicitante_id details) (NotCreatedEmbed (nome_da_tarefa details)),
                EditOriginalResponse (NotCreatedEmbed (nome_da_tarefa details))] w1)"

text \<open>Lines 349 to 387.\<close>

definition reject ::
  "env \<Rightarrow> string option \<Rightarrow> task_details \<Rightarrow> world \<Rightarrow> bool \<times> world" where
  "reject e reject_reason task_details w =
     (let motivo = (case truthy reject_reason of None \<Rightarrow> default_reason | Some r \<Rightarrow> r)
      in run_calls e
           [SendDM (solicitante_id task_details)
              (RejectedEmbed (nome_da_tarefa task_details) motivo),
            FollowupSend (RejectedConfirmEmbed (nome_da_tarefa task_details) motivo)] w)"

text \<open>
  Lines 389 to 403: the entry is removed and the buttons of the original message are
  disabled, inside a \<open>try\<close> that logs every exception.
\<close>

definition finish :: "env \<Rightarrow> interaction \<Rightarrow> string \<Rightarrow> world \<Rightarrow> world" where
  "finish e i tid w =
     (let w1 = w\<lparr>pending_tasks := remove_pending_task tid (pending_tasks w)\<rparr>
      in if has_message i then snd (call e DisableButtons w1) else w1)"

text \<open>
  Lines 162 to 403, from the return of \<open>fetch_user\<close> on, for an id that was found.
\<close>

definition approval_decide ::
  "env \<Rightarrow> interaction \<Rightarrow> string \<Rightarrow> bool \<Rightarrow> string option \<Rightarrow> task_details \<Rightarrow> bool \<Rightarrow>
   world \<Rightarrow> outcome \<times> world" where
  "approval_decide e i tid approved reject_reason task_details fetched w =
     (if \<not> fetched
      then (case call e (FollowupSend RequesterLookupErrorEmbed) w of
              (ok, w1) \<Rightarrow> (if ok then LookupFailed else Raised, w1))
      else (case (if approved then approve e i tid task_details w
                  else reject e reject_reason task_details w) of
              (False, w1) \<Rightarrow> (Raised, w1)
            | (True, w1) \<Rightarrow> (Decided, finish e i tid w1)))"

text \<open>
  The \<open>error_handler\<close> decorator: an exception that leaves \<open>handle_approval\<close> is logged
  and a general message is sent through \<open>interaction.followup\<close>; a failure of that send
  is logged too.
\<close>

definition error_handler :: "env \<Rightarrow> outcome \<times> world \<Rightarrow> outcome \<times> world" where
  "error_handler e r =
     (case r of
        (Raised, w) \<Rightarrow> (Raised, snd (call e (FollowupSend GenericErrorMessage) w))
      | (out, w) \<Rightarrow> (out, w))"

text \<open>The coroutine after its lookup: it has finished, or it goes on with what it found.\<close>

definition approval_resume ::
  "env \<Rightarrow> interaction \<Rightarrow> string \<Rightarrow> bool \<Rightarrow> string option \<Rightarrow> lookup \<Rightarrow> world \<Rightarrow>
   outcome \<times> world" where
  "approval_resume e i tid approved reject_reason l w =
     error_handler e
       (case l of
          Finished out \<Rightarrow> (out, w)
        | Found task_details fetched \<Rightarrow>
            approval_decide e i tid approved reject_reason task_details fetched w)"

definition handle_approval ::
  "env \<Rightarrow> interaction \<Rightarrow> string \<Rightarrow> bool \<Rightarrow> string option \<Rightarrow> world \<Rightarrow> outcome \<times> world" where
  "handle_approval e i tid approved reject_reason w =
     (case approval_lookup e tid w of
        (l, w1) \<Rightarrow> approval_resume e i tid approved reject_reason l w1)"

text \<open>
  Two calls of \<open>handle_approval\<close> on one id that run at the same time on the event loop of
  \<open>asyncio\<close>: a coroutine runs until it awaits, and while its call is outstanding the
  loop runs the other. In this schedule the first call is suspended in its
  \<open>await fetch_user\<close>, the second then runs up to the same point, then the first runs
  to its end and after it the second.
\<close>

definition interleaved_approvals ::
  "env \<Rightarrow> interaction \<Rightarrow> bool \<Rightarrow> string option \<Rightarrow>
   env \<Rightarrow> interaction \<Rightarrow> bool \<Rightarrow> string option \<Rightarrow> string \<Rightarrow> world \<Rightarrow>
   outcome \<times> outcome \<times> world" where
  "interleaved_approvals e1 i1 approved1 reason1 e2 i2 approved2 reason2 tid w =
     (case approval_lookup e1 tid w of
        (l1, w1) \<Rightarrow>
          (case approval_lookup e2 tid w1 of
             (l2, w2) \<Rightarrow>
               (case approval_resume e1 i1 tid approved1 reason1 l1 w2 of
                  (out1, w3) \<Rightarrow>
                    (case approval_resume e2 i2 tid approved2 reason2 l2 w3 of
                       (out2, w4) \<Rightarrow> (out1, out2, w4)))))"

text \<open>The two calls one after the other.\<close>

definition successive_approvals ::
  "env \<Rightarrow> interaction \<Rightarrow> bool \<Rightarrow> string option \<Rightarrow>
   env \<Rightarrow> interaction \<Rightarrow> bool \<Rightarrow> string option \<Rightarrow> string \<Rightarrow> world \<Rightarrow>
   outcome \<times> outcome \<times> world" where
  "successive_approvals e1 i1 approved1 reason1 e2 i2 approved2 reason2 tid w =
     (case handle_approval e1 i1 tid approved1 reason1 w of
        (out1, w1) \<Rightarrow>
          (case handle_approval e2 i2 tid approved2 reason2 w1 of
             (out2, w2) \<Rightarrow> (out1, out2, w2)))"

text \<open>The calls a trace holds that carry out a decision, and the POST requests in it.\<close>

definition posts :: "world \<Rightarrow> nat" where
  "posts w = length (filter is_post (trace w))"


section \<open>Runs of calls and sample inputs\<close>

text \<open>
  \<open>get_projects\<close> called once for each environment of a list, one call after the other.
  For each call the run keeps what the call returned and how many HTTP requests it issued.
\<close>

fun get_projects_calls ::
  "env list \<Rightarrow> world \<Rightarrow> ((openproject_error + project list) \<times> nat) list" where
  "get_projects_calls [] w = []"
| "get_projects_calls (e # es) w =
     (case get_projects e w of
        (r, w') \<Rightarrow> (r, fetches w' - fetches w) # get_projects_calls es w')"

text \<open>
  An environment in which no Discord call raises, the clock reads \<open>t\<close>, the server lists
  \<open>elements\<close> and creates work package 42 on request.
\<close>

definition env_at :: "real \<Rightarrow> raw_project list \<Rightarrow> env" where
  "env_at t elements =
     \<lparr> now = t, raises = (\<lambda>c. False),
       projects_reply = Reply 200 [] (Some elements),
       create_reply = Reply 201 []
         (Some \<lparr> created_id = Some 42, created_self_href = ''/api/v3/work_packages/42'' \<rparr>) \<rparr>"

definition infra :: raw_project where
  "infra = \<lparr> active = True, raw_id = Some 7, raw_name = Some ''Infra'',
             raw_identifier = Some ''infra'', self_href = ''/api/v3/projects/7'' \<rparr>"

definition website :: raw_project where
  "website = \<lparr> active = True, raw_id = Some 8, raw_name = Some ''Website'',
               raw_identifier = Some ''website'', self_href = ''/api/v3/projects/8'' \<rparr>"

definition archived :: raw_project where
  "archived = \<lparr> active = False, raw_id = Some 9, raw_name = Some ''Old'',
                raw_identifier = Some ''old'', self_href = ''/api/v3/projects/9'' \<rparr>"

definition sample_world :: world where
  "sample_world = fresh_world ''https://op.example/'' ''secret''"

text \<open>The sample world after a first listing at time 1000 that held the project Infra.\<close>

definition cached_world :: world where
  "cached_world = sample_world\<lparr>projects_cache := [project_of infra], cache_timestamp := 1000\<rparr>"

definition sample_view :: project_view where
  "sample_view = \<lparr> projects = [project_of infra], current_page = 0, total_pages = 1 \<rparr>"


definition decide_interaction :: interaction where
  "decide_interaction =
     \<lparr> interaction_id = 901, user_id = 22, user_display_name = ''Bruno'', has_message = True,
       notification_channel = None, requester_is_member = False \<rparr>"

definition sample_modal :: modal where
  "sample_modal =
     \<lparr> task_name = ''Deploy'', task_description = ''Ship it'', task_estimate = ''2.5'',
       start_date = ''10/05/2025'', due_date = ''15/05/2025'',
       selected_project_id = Some ''7'', selected_project_name = Some ''Infra'',
       aprovador_id = 22, aprovador_display_name = ''Bruno'',
       selected_version_id = Some ''3'', selected_version_name = Some ''v1'' \<rparr>"

definition pending_world :: world where
  "pending_world = sample_world\<lparr>pending_tasks := [''11_900'' \<mapsto> sample_task]\<rparr>"


text \<open>Discord does not find the requester.\<close>

definition env_no_requester :: env where
  "env_no_requester = (env_at 2000 [infra])\<lparr>raises := (\<lambda>c. c = FetchUser 11)\<rparr>"

section \<open>Properties of the registry\<close>

lemma get_after_remove: "get_pending_task task_id (remove_pending_task task_id pending) = None"
  by (simp add: get_pending_task_def remove_pending_task_def domIff)

text \<open>
  Claim C4, as the specification states it: \<open>add\<close> on an id that is already present
  fails and leaves the stored entry alone. The code assigns to the dictionary key, so the
  old entry is replaced. The statement below is the claim's consequence "the entry stored
  under a present id survives an \<open>add\<close>", refuted at a registry holding \<open>sample_task\<close>
  under the id \<open>11_900\<close>.
\<close>

theorem add_pending_task_overwrites_counterexample:
  "\<not> (\<forall>pending task_id old new.
        get_pending_task task_id pending = Some old \<longrightarrow>
        get_pending_task task_id (add_pending_task task_id new pending) = Some old)"
proof
  assume claim: "\<forall>pending task_id old new.
        get_pending_task task_id pending = Some old \<longrightarrow>
        get_pending_task task_id (add_pending_task task_id new pending) = Some old"
  let ?reg = "add_pending_task ''11_900'' sample_task Map.empty"
  let ?new = "sample_task\<lparr>nome_da_tarefa := ''Other''\<rparr>"
  have present: "get_pending_task ''11_900'' ?reg = Some sample_task"
    by (simp add: get_pending_task_def add_pending_task_def)
  from claim present
  have "get_pending_task ''11_900'' (add_pending_task ''11_900'' ?new ?reg) = Some sample_task"
    by blast
  then have "?new = sample_task"
    by (simp add: get_pending_task_def add_pending_task_def)
  then have "nome_da_tarefa ?new = nome_da_tarefa sample_task"
    by simp
  then show False
    by (simp add: sample_task_def)
qed

text \<open>
  Claim C4, amended to what \<open>add_pending_task\<close> does: it always succeeds; afterwards the
  id maps to the submission just given, whether or not the id was present before, and
  every other id keeps its entry.
\<close>

theorem add_pending_task_stores_new:
  "get_pending_task task_id (add_pending_task task_id new pending) = Some new \<and>
   (\<forall>other. other \<noteq> task_id \<longrightarrow>
      get_pending_task other (add_pending_task task_id new pending) =
      get_pending_task other pending)"
  by (simp add: get_pending_task_def add_pending_task_def)

theorem add_pending_task_stores_new_witness:
  "get_pending_task ''11_900''
     (add_pending_task ''11_900'' (sample_task\<lparr>nome_da_tarefa := ''Other''\<rparr>)
        (add_pending_task ''11_900'' sample_task Map.empty))
     = Some (sample_task\<lparr>nome_da_tarefa := ''Other''\<rparr>) \<and>
   get_pending_task ''11_901''
     (add_pending_task ''11_900'' (sample_task\<lparr>nome_da_tarefa := ''Other''\<rparr>)
        (add_pending_task ''11_900'' sample_task Map.empty))
     = get_pending_task ''11_901'' (add_pending_task ''11_900'' sample_task Map.empty)"
  using add_pending_task_stores_new
    [of "''11_900''" "sample_task\<lparr>nome_da_tarefa := ''Other''\<rparr>"
        "add_pending_task ''11_900'' sample_task Map.empty"]
  by simp

section \<open>Properties of \<open>format_duration\<close>\<close>




text \<open>
  The examples of the specification, on which the arithmetic of floats is exact.
\<close>

lemma format_duration_examples:
  "format_duration (HoursFloat (5 / 2)) = Some ''PT2H30M''"
  "format_duration (HoursFloat 3) = Some ''PT3H''"
  "format_duration (HoursStr ''2.5'') = Some ''PT2H30M''"
  "format_duration (HoursStr ''abc'') = None"
  by (simp_all add: format_duration_def format_hours_def int_of_float_def str_int_def
      str_nat.simps isdigit_def isdigit_char_def ascii_digit_def py_float_def nat_of_digits_def
      digit_value_def Let_def)




section \<open>Properties of the description\<close>

lemma split_on_nonempty: "split_on sep s \<noteq> []"
  by (induction s) (auto split: list.splits)

lemma split_on_append: "split_on sep (a @ sep # b) = split_on sep a @ split_on sep b"
proof (induction a)
  case Nil
  then show ?case by simp
next
  case (Cons c a)
  then show ?case
    using split_on_nonempty [of sep a]
    by (cases "split_on sep a") auto
qed

lemma split_on_no_sep: "sep \<notin> set a \<Longrightarrow> split_on sep a = [a]"
  by (induction a) auto

lemma split_on_lines:
  "\<forall>l \<in> set ls. sep \<notin> set l \<Longrightarrow> sep \<notin> set l' \<Longrightarrow>
   split_on sep (concat (map (\<lambda>l. l @ [sep]) ls) @ l') = ls @ [l']"
proof (induction ls)
  case Nil
  then show ?case by (simp add: split_on_no_sep)
next
  case (Cons a ls)
  then have "split_on sep (a @ sep # (concat (map (\<lambda>l. l @ [sep]) ls) @ l')) = [a] @ (ls @ [l'])"
    by (simp only: split_on_append) (simp add: split_on_no_sep)
  then show ?case by simp
qed

lemma description_text_concat:
  "description_text td =
     descricao td @ newline # ([] @ newline #
       (concat (map (\<lambda>l. l @ [newline]) (butlast (field_lines td))) @ last (field_lines td)))"
  by (simp add: description_text_def field_lines_def butlast_append split: option.splits)

lemma field_lines_single:
  "single_line_fields td \<Longrightarrow> \<forall>l \<in> set (field_lines td). newline \<notin> set l"
  by (auto simp: single_line_fields_def field_lines_def newline_def
      split: option.splits if_splits)

lemma field_lines_nonempty: "field_lines td \<noteq> []"
  by (simp add: field_lines_def)

text \<open>
  Claim C7, as the specification states it: the lines of the description are the fields
  that are present and nothing else. For a submission with no free text, no dates and no
  version the code writes two empty lines before the requester's line, where the claim
  has none.
\<close>

theorem description_blank_lines_counterexample:
  "\<not> (\<forall>td. split_on newline (description_text td) = claimed_description_lines td)"
proof
  assume "\<forall>td. split_on newline (description_text td) = claimed_description_lines td"
  then have "split_on newline (description_text bare_task) = claimed_description_lines bare_task"
    by blast
  moreover have "split_on newline (description_text bare_task) =
      [[], [], ''Solicitado por: Ana'', ''Aprovado por: Bruno'']"
    by (simp add: description_text_def bare_task_def sample_task_def newline_def)
  moreover have "claimed_description_lines bare_task =
      [''Solicitado por: Ana'', ''Aprovado por: Bruno'']"
    by (simp add: claimed_description_lines_def field_lines_def bare_task_def sample_task_def)
  ultimately show False
    by simp
qed

text \<open>
  Claim C7, amended: the description is the free text, then one empty line, which is
  written whether or not there is free text, then the labelled lines in the fixed order:
  start date, due date and version only when given, then requester and approver. The
  dates, the version and the two names are taken to hold no line break.
\<close>

theorem description_text_lines:
  assumes "single_line_fields td"
  shows "split_on newline (description_text td) =
         split_on newline (descricao td) @ [[]] @ field_lines td"
proof -
  let ?ls = "field_lines td"
  have all: "\<forall>l \<in> set ?ls. newline \<notin> set l"
    using assms by (rule field_lines_single)
  have "\<forall>l \<in> set (butlast ?ls). newline \<notin> set l"
    using all by (meson in_set_butlastD)
  moreover have "newline \<notin> set (last ?ls)"
    using all field_lines_nonempty [of td] by simp
  ultimately have rest: "split_on newline
      (concat (map (\<lambda>l. l @ [newline]) (butlast ?ls)) @ last ?ls) = ?ls"
    using field_lines_nonempty [of td] by (simp add: split_on_lines)
  show ?thesis
    by (simp only: description_text_concat split_on_append rest) simp
qed

theorem description_text_lines_witness:
  "single_line_fields sample_task \<and>
   split_on newline (description_text sample_task) =
     [''Ship it'', [],
      ''Data de in'' @ [CHR 0xED] @ ''cio: 10/05/2025'',
      ''Data de t'' @ [CHR 0xE9] @ ''rmino: 15/05/2025'',
      ''Vers'' @ [CHR 0xE3] @ ''o: v1'',
      ''Solicitado por: Ana'', ''Aprovado por: Aprovador'']"
proof -
  have single: "single_line_fields sample_task"
    by (simp add: single_line_fields_def sample_task_def newline_def)
  from description_text_lines [OF single] single
  show ?thesis
    by (simp add: field_lines_def sample_task_def newline_def)
qed

section \<open>Properties of the project cache\<close>

lemma get_projects_fetch:
  assumes "base_url w \<noteq> []" "api_key w \<noteq> []"
    and "projects_cache w = [] \<or> CACHE_DURATION \<le> now e - cache_timestamp w"
    and "projects_reply e = Reply c t (Some elems)" "c < 400"
  shows "get_projects e w =
           (Inr (map project_of (filter active elems)),
            w\<lparr>trace := trace w @ [Http GET (base_url w @ ''/api/v3/projects'') None],
              projects_cache := map project_of (filter active elems),
              cache_timestamp := now e\<rparr>)"
  using assms by (auto simp: get_projects_def make_request_def Let_def)

lemma get_projects_fetch_props:
  assumes "base_url w \<noteq> []" "api_key w \<noteq> []"
    and "projects_cache w = [] \<or> CACHE_DURATION \<le> now e - cache_timestamp w"
    and "projects_reply e = Reply c t (Some elems)" "c < 400"
  shows "fst (get_projects e w) = Inr (map project_of (filter active elems))"
    and "fetches (snd (get_projects e w)) = fetches w + 1"
    and "projects_cache (snd (get_projects e w)) = map project_of (filter active elems)"
    and "cache_timestamp (snd (get_projects e w)) = now e"
    and "base_url (snd (get_projects e w)) = base_url w"
    and "api_key (snd (get_projects e w)) = api_key w"
  by (simp_all add: get_projects_fetch [OF assms] fetches_def is_http_def)

lemma get_projects_cached:
  assumes "projects_cache w \<noteq> []" "now e - cache_timestamp w < CACHE_DURATION"
  shows "get_projects e w = (Inr (projects_cache w), w)"
  using assms by (simp add: get_projects_def Let_def)

lemma get_projects_calls_cached:
  assumes "projects_cache w \<noteq> []" "\<forall>e \<in> set es. now e - cache_timestamp w < CACHE_DURATION"
  shows "get_projects_calls (es @ rest) w =
         replicate (length es) (Inr (projects_cache w), 0) @ get_projects_calls rest w"
  using assms by (induction es) (simp_all add: get_projects_cached)

lemma get_projects_calls_Cons:
  "get_projects_calls (e # es) w =
     (fst (get_projects e w), fetches (snd (get_projects e w)) - fetches w)
     # get_projects_calls es (snd (get_projects e w))"
  by (simp split: prod.splits)

text \<open>
  Claim C5, as the specification states it, for every listing, also one with no active
  project: a first call in a fresh process fetches once and a second call inside the
  window fetches nothing. \<open>get_projects\<close> uses its cache only \<open>if self._projects_cache and
  ...\<close>, and an empty list is false in Python: when the server lists only an archived
  project, the second call, 60 seconds after the first, fetches again.
\<close>

theorem get_projects_empty_listing_counterexample:
  "\<not> (\<forall>url key e0 e1 c t elems.
        base_url (fresh_world url key) \<noteq> [] \<and> key \<noteq> [] \<and>
        projects_reply e0 = Reply c t (Some elems) \<and> c < 400 \<and>
        now e1 - now e0 < CACHE_DURATION \<longrightarrow>
        get_projects_calls [e0, e1] (fresh_world url key) =
          [(Inr (map project_of (filter active elems)), 1),
           (Inr (map project_of (filter active elems)), 0)])"
proof
  assume claim: "\<forall>url key e0 e1 c t elems.
        base_url (fresh_world url key) \<noteq> [] \<and> key \<noteq> [] \<and>
        projects_reply e0 = Reply c t (Some elems) \<and> c < 400 \<and>
        now e1 - now e0 < CACHE_DURATION \<longrightarrow>
        get_projects_calls [e0, e1] (fresh_world url key) =
          [(Inr (map project_of (filter active elems)), 1),
           (Inr (map project_of (filter active elems)), 0)]"
  have pre: "base_url (fresh_world ''https://op.example/'' ''secret'') \<noteq> [] \<and> ''secret'' \<noteq> [] \<and>
      projects_reply (env_at 1000 [archived]) = Reply 200 [] (Some [archived]) \<and>
      (200::nat) < 400 \<and>
      now (env_at 1060 [archived]) - now (env_at 1000 [archived]) < CACHE_DURATION"
    by (simp add: fresh_world_def env_at_def CACHE_DURATION_def)
  from claim pre
  have "get_projects_calls [env_at 1000 [archived], env_at 1060 [archived]]
          (fresh_world ''https://op.example/'' ''secret'') =
        [(Inr (map project_of (filter active [archived])), 1),
         (Inr (map project_of (filter active [archived])), 0)]"
    by blast
  moreover
  have "get_projects_calls [env_at 1000 [archived], env_at 1060 [archived]]
          (fresh_world ''https://op.example/'' ''secret'') = [(Inr [], 1), (Inr [], 1)]"
    by (simp add: env_at_def archived_def fresh_world_def get_projects_def
        make_request_def CACHE_DURATION_def fetches_def is_http_def Let_def)
  ultimately show False
    by simp
qed

text \<open>
  Claim C5, amended to the listings with at least one active project. In a fresh,
  configured process: the first call issues one request and returns the active projects;
  each further call, however many, whose clock is less than \<open>CACHE_DURATION\<close> past the
  first call issues none and returns the same list; the call whose clock is
  \<open>CACHE_DURATION\<close> or more past the first issues one request and returns the active
  projects of the new listing.
\<close>

theorem get_projects_cache_window:
  assumes conf: "base_url (fresh_world url key) \<noteq> []" "key \<noteq> []"
    and first: "projects_reply e0 = Reply c0 t0 (Some elems0)" "c0 < 400"
    and nonempty: "filter active elems0 \<noteq> []"
    and within: "\<forall>e \<in> set es. now e - now e0 < CACHE_DURATION"
    and after: "CACHE_DURATION \<le> now e2 - now e0"
    and last: "projects_reply e2 = Reply c2 t2 (Some elems2)" "c2 < 400"
  shows "get_projects_calls (e0 # es @ [e2]) (fresh_world url key) =
           (Inr (map project_of (filter active elems0)), 1)
           # replicate (length es) (Inr (map project_of (filter active elems0)), 0)
           @ [(Inr (map project_of (filter active elems2)), 1)]"
proof -
  define w0 where "w0 = fresh_world url key"
  define w1 where "w1 = snd (get_projects e0 w0)"
  let ?P0 = "map project_of (filter active elems0)"
  have url: "base_url w0 \<noteq> []" and key': "api_key w0 \<noteq> []" and empty: "projects_cache w0 = []"
    using conf by (simp_all add: w0_def fresh_world_def)
  have stale0: "projects_cache w0 = [] \<or> CACHE_DURATION \<le> now e0 - cache_timestamp w0"
    using empty by simp
  note p0 = get_projects_fetch_props [OF url key' stale0 first]
  have cache1: "projects_cache w1 = ?P0" and ts1: "cache_timestamp w1 = now e0"
    and url1: "base_url w1 \<noteq> []" and key1: "api_key w1 \<noteq> []"
    using p0 url key' by (simp_all add: w1_def)
  have ne1: "projects_cache w1 \<noteq> []"
    using nonempty cache1 by simp
  have within1: "\<forall>e \<in> set es. now e - cache_timestamp w1 < CACHE_DURATION"
    using within ts1 by simp
  have stale1: "projects_cache w1 = [] \<or> CACHE_DURATION \<le> now e2 - cache_timestamp w1"
    using after ts1 by simp
  note p2 = get_projects_fetch_props [OF url1 key1 stale1 last]
  have head: "get_projects_calls (e0 # es @ [e2]) w0 =
      (Inr ?P0, 1) # get_projects_calls (es @ [e2]) w1"
    unfolding get_projects_calls_Cons using p0 by (simp add: w1_def)
  have middle: "get_projects_calls (es @ [e2]) w1 =
      replicate (length es) (Inr ?P0, 0) @ get_projects_calls [e2] w1"
    using get_projects_calls_cached [OF ne1 within1, of "[e2]"] cache1 by simp
  have tail: "get_projects_calls [e2] w1 = [(Inr (map project_of (filter active elems2)), 1)]"
    unfolding get_projects_calls_Cons using p2 by simp
  show ?thesis
    unfolding w0_def [symmetric] head middle tail by simp
qed

theorem get_projects_cache_window_witness:
  "get_projects_calls
     [env_at 1000 [infra, archived], env_at 1060 [infra, website], env_at 4599 [website],
      env_at 4600 [infra, website]] sample_world =
   [(Inr [project_of infra], 1), (Inr [project_of infra], 0), (Inr [project_of infra], 0),
    (Inr [project_of infra, project_of website], 1)]"
proof -
  have conf: "base_url (fresh_world ''https://op.example/'' ''secret'') \<noteq> []" "''secret'' \<noteq> []"
    by (simp_all add: fresh_world_def)
  have first: "projects_reply (env_at 1000 [infra, archived]) =
      Reply 200 [] (Some [infra, archived])" "(200::nat) < 400"
    by (simp_all add: env_at_def)
  have nonempty: "filter active [infra, archived] \<noteq> []"
    by (simp add: infra_def)
  have within: "\<forall>e \<in> set [env_at 1060 [infra, website], env_at 4599 [website]].
      now e - now (env_at 1000 [infra, archived]) < CACHE_DURATION"
    by (simp add: env_at_def CACHE_DURATION_def)
  have after: "CACHE_DURATION \<le> now (env_at 4600 [infra, website]) - now (env_at 1000 [infra, archived])"
    by (simp add: env_at_def CACHE_DURATION_def)
  have last: "projects_reply (env_at 4600 [infra, website]) =
      Reply 200 [] (Some [infra, website])"
    by (simp add: env_at_def)
  from get_projects_cache_window [OF conf first nonempty within after last first(2)]
  show ?thesis
    by (simp add: sample_world_def infra_def website_def archived_def)
qed

text \<open>
  Claim C3 at a concrete input. The cache holds the project Infra, fetched at time 1000;
  at time 1060 the server lists Infra and Website, and the user presses the refresh
  button. \<open>refresh_projects\<close> calls \<open>get_projects\<close>, which finds its cache fresh: no HTTP
  request is issued and the view shows the cached list of one project again.
\<close>

theorem refresh_projects_serves_cache:
  "refresh_projects (env_at 1060 [infra, website]) sample_view cached_world =
     (True, sample_view,
      cached_world\<lparr>trace :=
        [EditMessage LoadingEmbed, EditOriginalResponse (ProjectListEmbed 1 1)]\<rparr>) \<and>
   projects sample_view = [project_of infra] \<and>
   fetches (snd (snd (refresh_projects (env_at 1060 [infra, website]) sample_view cached_world)))
     = 0"
  by (simp add: refresh_projects_def call_def env_at_def cached_world_def sample_world_def
      fresh_world_def get_projects_def CACHE_DURATION_def sample_view_def ITEMS_PER_PAGE_def
      fetches_def is_http_def Let_def)

section \<open>Properties of \<open>on_submit\<close>\<close>

lemma run_calls_pending [simp]: "pending_tasks (snd (run_calls e cs w)) = pending_tasks w"
  by (induction cs arbitrary: w) (auto simp: call_def split: prod.splits bool.splits)








section \<open>Properties of \<open>handle_approval\<close>\<close>

lemma finish_removes: "get_pending_task tid (pending_tasks (finish e i tid w)) = None"
  by (simp add: finish_def call_def get_pending_task_def remove_pending_task_def domIff Let_def)


lemma approval_decide_Decided:
  "approval_decide e i tid a r td fetched w = (Decided, w1) \<Longrightarrow> \<exists>w2. w1 = finish e i tid w2"
  by (auto simp: approval_decide_def split: prod.splits bool.splits if_splits)


lemma handle_approval_Decided:
  assumes "handle_approval e i tid a r w = (Decided, w1)"
  shows "get_pending_task tid (pending_tasks w1) = None"
proof -
  from assms obtain td fetched w0 where
    "approval_decide e i tid a r td fetched w0 = (Decided, w1)"
    by (auto simp: handle_approval_def approval_lookup_def approval_resume_def error_handler_def
        call_def split: prod.splits bool.splits option.splits if_splits outcome.splits lookup.splits)
  then obtain w2 where "w1 = finish e i tid w2"
    using approval_decide_Decided by blast
  then show ?thesis
    by (simp add: finish_removes)
qed


lemma handle_approval_absent:
  assumes "get_pending_task tid (pending_tasks w) = None"
  shows "handle_approval e i tid a r w =
     (if raises e Defer
      then (Raised, w\<lparr>trace := trace w @ [Defer, FollowupSend GenericErrorMessage]\<rparr>)
      else if raises e (FollowupSend NotFoundEmbed)
      then (Raised, w\<lparr>trace := trace w @
              [Defer, FollowupSend NotFoundEmbed, FollowupSend GenericErrorMessage]\<rparr>)
      else (NotFound, w\<lparr>trace := trace w @ [Defer, FollowupSend NotFoundEmbed]\<rparr>))"
  using assms
  by (simp add: handle_approval_def approval_lookup_def approval_resume_def error_handler_def
      call_def)


lemma format_dates_fields [simp]:
  "project_id (format_dates td) = project_id td"
  "nome_da_tarefa (format_dates td) = nome_da_tarefa td"
  "solicitante_id (format_dates td) = solicitante_id td"
  by (simp_all add: format_dates_def Let_def)

lemma store_details_fields [simp]:
  "base_url (store_details tid d w) = base_url w"
  "api_key (store_details tid d w) = api_key w"
  "trace (store_details tid d w) = trace w"
  "projects_cache (store_details tid d w) = projects_cache w"
  "cache_timestamp (store_details tid d w) = cache_timestamp w"
  by (simp_all add: store_details_def)





lemma run_calls_quiet:
  "\<forall>c. \<not> raises e c \<Longrightarrow> run_calls e cs w = (True, w\<lparr>trace := trace w @ cs\<rparr>)"
  by (induction cs arbitrary: w) (simp_all add: call_def)

lemma get_projects_config [simp]:
  "base_url (snd (get_projects e w)) = base_url w"
  "api_key (snd (get_projects e w)) = api_key w"
  "pending_tasks (snd (get_projects e w)) = pending_tasks w"
  by (auto simp: get_projects_def make_request_def Let_def split: http_reply.splits option.splits)

lemma get_projects_posts [simp]: "posts (snd (get_projects e w)) = posts w"
  by (auto simp: get_projects_def make_request_def posts_def is_post_def Let_def
      split: http_reply.splits option.splits)

lemma get_projects_succeeds:
  assumes "projects_reply e = Reply c t (Some elems)" "c < 400"
    and "base_url w \<noteq> []" "api_key w \<noteq> []"
  shows "\<exists>ps. fst (get_projects e w) = Inr ps"
  using assms by (auto simp: get_projects_def make_request_def Let_def)

lemma create_task_succeeds:
  assumes created: "create_reply e = Reply c1 t1 (Some created)" "c1 < 400"
    and listed: "projects_reply e = Reply c2 t2 (Some elems)" "c2 < 400"
    and conf: "base_url w \<noteq> []" "api_key w \<noteq> []"
    and valid: "project_id td \<noteq> []" "nome_da_tarefa td \<noteq> []"
  shows "\<exists>r. fst (create_task e tid td w) = Inr r"
    and "posts (snd (create_task e tid td w)) = posts w + 1"
    and "base_url (snd (create_task e tid td w)) = base_url w"
    and "api_key (snd (create_task e tid td w)) = api_key w"
proof -
  define w0 where "w0 = store_details tid (format_dates td) w"
  define w1 where "w1 = w0\<lparr>trace := trace w0 @ [Http POST (base_url w0 @ ''/api/v3/work_packages'')
                (Some (build_payload (format_dates td)))]\<rparr>"
  have w0: "base_url w0 = base_url w" "api_key w0 = api_key w" "posts w0 = posts w"
    by (simp_all add: w0_def posts_def)
  have w1: "base_url w1 = base_url w" "api_key w1 = api_key w" "posts w1 = posts w + 1"
    using w0 by (simp_all add: w1_def posts_def is_post_def)
  have mr: "make_request POST (base_url w0 @ ''/api/v3/work_packages'')
      (Some (build_payload (format_dates td))) (create_reply e) w0 = (Inr created, w1)"
    using created conf w0 by (simp add: make_request_def w1_def Let_def)
  obtain ps w2 where gp: "get_projects e w1 = (Inr ps, w2)"
    using get_projects_succeeds [OF listed, of w1] conf w1
    by (cases "get_projects e w1") auto
  have w2: "base_url w2 = base_url w" "api_key w2 = api_key w" "posts w2 = posts w + 1"
    using get_projects_config(1,2) [of e w1] get_projects_posts [of e w1] w1
    by (simp_all add: gp)
  have ct: "create_task e tid td w =
      (Inr (make_result (base_url w2) (format_dates td) created ps), w2)"
    using valid
    by (simp add: create_task_def repository_create_task_def w0_def [symmetric] mr gp)
  show "\<exists>r. fst (create_task e tid td w) = Inr r"
    by (simp add: ct)
  show "posts (snd (create_task e tid td w)) = posts w + 1"
    by (simp add: ct w2)
  show "base_url (snd (create_task e tid td w)) = base_url w"
    by (simp add: ct w2)
  show "api_key (snd (create_task e tid td w)) = api_key w"
    by (simp add: ct w2)
qed


lemma posts_append [simp]:
  "posts (w\<lparr>trace := trace w @ cs\<rparr>) = posts w + length (filter is_post cs)"
  by (simp add: posts_def)

lemma posts_finish [simp]: "posts (finish e i tid w) = posts w"
  by (simp add: finish_def call_def posts_def is_post_def Let_def)

lemma config_finish [simp]:
  "base_url (finish e i tid w) = base_url w" "api_key (finish e i tid w) = api_key w"
  by (simp_all add: finish_def call_def Let_def)

lemma approve_try_succeeds:
  assumes quiet: "\<forall>c. \<not> raises e c"
    and created: "create_reply e = Reply c1 t1 (Some created)" "c1 < 400"
    and listed: "projects_reply e = Reply c2 t2 (Some elems)" "c2 < 400"
    and conf: "base_url w \<noteq> []" "api_key w \<noteq> []"
    and valid: "project_id td \<noteq> []" "nome_da_tarefa td \<noteq> []"
  shows "fst (approve_try e i tid td w) \<and>
         posts (snd (approve_try e i tid td w)) = posts w + 1 \<and>
         base_url (snd (approve_try e i tid td w)) = base_url w \<and>
         api_key (snd (approve_try e i tid td w)) = api_key w"
proof -
  define w1 where "w1 = w\<lparr>trace := trace w @ [FollowupSend (ProcessingEmbed (nome_da_tarefa td))]\<rparr>"
  have w1: "base_url w1 = base_url w" "api_key w1 = api_key w" "posts w1 = posts w"
    by (simp_all add: w1_def is_post_def)
  note ct = create_task_succeeds [OF created listed, of w1 td tid]
  obtain r w2 where run: "create_task e tid td w1 = (Inr r, w2)"
    using ct(1) conf valid w1 by (cases "create_task e tid td w1") auto
  have w2: "base_url w2 = base_url w" "api_key w2 = api_key w" "posts w2 = posts w + 1"
    using ct(2-4) conf valid w1 by (simp_all add: run)
  show ?thesis
    using quiet w2
    by (simp add: approve_try_def call_def w1_def [symmetric] run run_calls_quiet
        create_thread_def is_post_def Let_def split: option.splits)
qed

lemma approval_resume_succeeds:
  assumes quiet: "\<forall>c. \<not> raises e c"
    and created: "create_reply e = Reply c1 t1 (Some created)" "c1 < 400"
    and listed: "projects_reply e = Reply c2 t2 (Some elems)" "c2 < 400"
    and conf: "base_url w \<noteq> []" "api_key w \<noteq> []"
    and valid: "project_id td \<noteq> []" "nome_da_tarefa td \<noteq> []"
  shows "fst (approval_resume e i tid True r (Found td True) w) = Decided \<and>
         posts (snd (approval_resume e i tid True r (Found td True) w)) = posts w + 1 \<and>
         base_url (snd (approval_resume e i tid True r (Found td True) w)) = base_url w \<and>
         api_key (snd (approval_resume e i tid True r (Found td True) w)) = api_key w"
proof -
  let ?d = "td\<lparr>aprovador_nome := Some (user_display_name i)\<rparr>"
  define w2 where "w2 = store_details tid ?d w"
  have w2: "base_url w2 = base_url w" "api_key w2 = api_key w" "posts w2 = posts w"
    by (simp_all add: w2_def posts_def)
  note at = approve_try_succeeds [OF quiet created listed, of w2 ?d i tid]
  obtain w3 where run: "approve_try e i tid ?d w2 = (True, w3)"
    using at conf valid w2 by (cases "approve_try e i tid ?d w2") auto
  have w3: "base_url w3 = base_url w" "api_key w3 = api_key w" "posts w3 = posts w + 1"
    using at conf valid w2 by (simp_all add: run)
  have "approve e i tid td w = (True, w3)"
    by (simp add: approve_def w2_def [symmetric] run Let_def)
  then have "approval_resume e i tid True r (Found td True) w = (Decided, finish e i tid w3)"
    by (simp add: approval_resume_def approval_decide_def error_handler_def)
  then show ?thesis
    by (simp add: w3)
qed

lemma approval_lookup_found:
  assumes "get_pending_task tid (pending_tasks w) = Some td" "\<not> raises e Defer"
  shows "approval_lookup e tid w =
           (Found td (\<not> raises e (FetchUser (solicitante_id td))),
            w\<lparr>trace := trace w @ [Defer, FetchUser (solicitante_id td)]\<rparr>)"
  using assms by (simp add: approval_lookup_def call_def)

lemma interleaved_approvals_both_act:
  assumes found: "get_pending_task tid (pending_tasks w) = Some td"
    and quiet: "\<forall>c. \<not> raises e1 c" "\<forall>c. \<not> raises e2 c"
    and created: "create_reply e1 = Reply c1 t1 (Some created1)" "c1 < 400"
      "create_reply e2 = Reply c2 t2 (Some created2)" "c2 < 400"
    and listed: "projects_reply e1 = Reply c3 t3 (Some elems1)" "c3 < 400"
      "projects_reply e2 = Reply c4 t4 (Some elems2)" "c4 < 400"
    and conf: "base_url w \<noteq> []" "api_key w \<noteq> []"
    and valid: "project_id td \<noteq> []" "nome_da_tarefa td \<noteq> []"
  shows "fst (interleaved_approvals e1 i1 True r1 e2 i2 True r2 tid w) = Decided \<and>
         fst (snd (interleaved_approvals e1 i1 True r1 e2 i2 True r2 tid w)) = Decided \<and>
         posts (snd (snd (interleaved_approvals e1 i1 True r1 e2 i2 True r2 tid w))) = posts w + 2"
proof -
  define w1 where "w1 = w\<lparr>trace := trace w @ [Defer, FetchUser (solicitante_id td)]\<rparr>"
  define w2 where "w2 = w1\<lparr>trace := trace w1 @ [Defer, FetchUser (solicitante_id td)]\<rparr>"
  have l1: "approval_lookup e1 tid w = (Found td True, w1)"
    using approval_lookup_found [OF found, of e1] quiet(1) by (simp add: w1_def)
  have "get_pending_task tid (pending_tasks w1) = Some td"
    using found by (simp add: w1_def)
  then have l2: "approval_lookup e2 tid w1 = (Found td True, w2)"
    using approval_lookup_found [of tid w1 td e2] quiet(2) by (simp add: w2_def)
  have w2: "base_url w2 \<noteq> []" "api_key w2 \<noteq> []" "posts w2 = posts w"
    using conf by (simp_all add: w2_def w1_def is_post_def)
  define w3 where "w3 = snd (approval_resume e1 i1 tid True r1 (Found td True) w2)"
  note first = approval_resume_succeeds [OF quiet(1) created(1,2) listed(1,2) w2(1,2) valid,
      of i1 tid r1]
  have w3: "base_url w3 \<noteq> []" "api_key w3 \<noteq> []" "posts w3 = posts w + 1"
    using first w2 by (simp_all add: w3_def)
  note second = approval_resume_succeeds [OF quiet(2) created(3,4) listed(3,4) w3(1,2) valid,
      of i2 tid r2]
  have r1: "approval_resume e1 i1 tid True r1 (Found td True) w2 = (Decided, w3)"
    using first by (simp add: w3_def prod_eq_iff)
  define w4 where "w4 = snd (approval_resume e2 i2 tid True r2 (Found td True) w3)"
  have r2: "approval_resume e2 i2 tid True r2 (Found td True) w3 = (Decided, w4)"
    using second by (simp add: w4_def prod_eq_iff)
  have "posts w4 = posts w + 2"
    using second w3(3) by (simp add: w4_def)
  then show ?thesis
    by (simp add: interleaved_approvals_def l1 l2 r1 r2)
qed

lemma handle_approval_succeeds:
  assumes found: "get_pending_task tid (pending_tasks w) = Some td"
    and quiet: "\<forall>c. \<not> raises e c"
    and created: "create_reply e = Reply c1 t1 (Some created)" "c1 < 400"
    and listed: "projects_reply e = Reply c2 t2 (Some elems)" "c2 < 400"
    and conf: "base_url w \<noteq> []" "api_key w \<noteq> []"
    and valid: "project_id td \<noteq> []" "nome_da_tarefa td \<noteq> []"
  shows "fst (handle_approval e i tid True r w) = Decided \<and>
         posts (snd (handle_approval e i tid True r w)) = posts w + 1"
proof -
  define w1 where "w1 = w\<lparr>trace := trace w @ [Defer, FetchUser (solicitante_id td)]\<rparr>"
  have l: "approval_lookup e tid w = (Found td True, w1)"
    using approval_lookup_found [OF found, of e] quiet by (simp add: w1_def)
  have w1: "base_url w1 \<noteq> []" "api_key w1 \<noteq> []" "posts w1 = posts w"
    using conf by (simp_all add: w1_def is_post_def)
  from approval_resume_succeeds [OF quiet created listed w1(1,2) valid, of i tid r] w1(3)
  show ?thesis
    by (simp add: handle_approval_def l)
qed

lemma reject_later:
  assumes found: "get_pending_task tid (pending_tasks w) = Some td"
    and quiet: "\<forall>c. \<not> raises e c"
  shows "fst (handle_approval e i tid False r w) = Decided"
  using assms
  by (simp add: handle_approval_def approval_lookup_def approval_resume_def
      approval_decide_def error_handler_def reject_def call_def Let_def)

text \<open>
  Claim C10: the submission is in the registry and \<open>fetch_user\<close> raises. Whether the
  decision was an approval or a rejection, the handler sends the lookup error and
  returns (or, when that send raises too, ends in the \<open>error_handler\<close>): the calls it
  issued are the deferral, the lookup and these messages, none of them an HTTP request or
  a message to the requester; nothing else of the state has changed, so the entry is
  still registered; a later call of \<open>handle_approval\<close> on the id finds the same entry;
  and a later rejection, in an environment where no Discord call raises, is carried out.
\<close>

theorem requester_lookup_failure_keeps_entry:
  assumes found: "get_pending_task tid (pending_tasks w) = Some td"
    and deferred: "\<not> raises e Defer"
    and lookup: "raises e (FetchUser (solicitante_id td))"
  shows "fst (handle_approval e i tid approved reason w) \<in> {LookupFailed, Raised} \<and>
         snd (handle_approval e i tid approved reason w) =
           w\<lparr>trace := trace w @
               [Defer, FetchUser (solicitante_id td), FollowupSend RequesterLookupErrorEmbed]
               @ (if raises e (FollowupSend RequesterLookupErrorEmbed)
                  then [FollowupSend GenericErrorMessage] else [])\<rparr> \<and>
         (\<forall>e2. \<not> raises e2 Defer \<longrightarrow>
            (\<exists>fetched.
               fst (approval_lookup e2 tid (snd (handle_approval e i tid approved reason w)))
                 = Found td fetched)) \<and>
         (\<forall>e2 i2 r2. (\<forall>c. \<not> raises e2 c) \<longrightarrow>
            fst (handle_approval e2 i2 tid False r2
                   (snd (handle_approval e i tid approved reason w))) = Decided)"
proof -
  let ?w' = "w\<lparr>trace := trace w @
               [Defer, FetchUser (solicitante_id td), FollowupSend RequesterLookupErrorEmbed]
               @ (if raises e (FollowupSend RequesterLookupErrorEmbed)
                  then [FollowupSend GenericErrorMessage] else [])\<rparr>"
  have run: "fst (handle_approval e i tid approved reason w) \<in> {LookupFailed, Raised}"
      "snd (handle_approval e i tid approved reason w) = ?w'"
    using assms
    by (simp_all add: handle_approval_def approval_lookup_def approval_resume_def
        approval_decide_def error_handler_def call_def)
  have still: "get_pending_task tid (pending_tasks ?w') = Some td"
    using found by (simp add: get_pending_task_def)
  have "\<forall>e2. \<not> raises e2 Defer \<longrightarrow> (\<exists>fetched. fst (approval_lookup e2 tid ?w') = Found td fetched)"
    using approval_lookup_found [OF still] by simp
  moreover have "\<forall>e2 i2 r2. (\<forall>c. \<not> raises e2 c) \<longrightarrow>
      fst (handle_approval e2 i2 tid False r2 ?w') = Decided"
    using reject_later [OF still] by blast
  ultimately show ?thesis
    using run by simp
qed

lemma sample_found: "get_pending_task ''11_900'' (pending_tasks pending_world) = Some sample_task"
  by (simp add: pending_world_def get_pending_task_def)

lemma sample_conf: "base_url pending_world \<noteq> []" "api_key pending_world \<noteq> []"
  by (simp_all add: pending_world_def sample_world_def fresh_world_def)

lemma sample_valid: "project_id sample_task \<noteq> []" "nome_da_tarefa sample_task \<noteq> []"
  "solicitante_id sample_task = 11" "nome_da_tarefa sample_task = ''Deploy''"
  by (simp_all add: sample_task_def)

lemma env_at_quiet: "\<forall>c. \<not> raises (env_at t elems) c"
  by (simp add: env_at_def)

lemma env_at_replies:
  "create_reply (env_at t elems) = Reply 201 []
     (Some \<lparr> created_id = Some 42, created_self_href = ''/api/v3/work_packages/42'' \<rparr>)"
  "projects_reply (env_at t elems) = Reply 200 [] (Some elems)"
  by (simp_all add: env_at_def)

theorem requester_lookup_failure_keeps_entry_witness:
  "fst (handle_approval env_no_requester decide_interaction ''11_900'' True None pending_world)
     \<in> {LookupFailed, Raised} \<and>
   snd (handle_approval env_no_requester decide_interaction ''11_900'' True None pending_world) =
     pending_world\<lparr>trace := [Defer, FetchUser 11, FollowupSend RequesterLookupErrorEmbed]\<rparr> \<and>
   fst (handle_approval (env_at 3000 [infra]) decide_interaction ''11_900'' False (Some ''late'')
          (snd (handle_approval env_no_requester decide_interaction ''11_900'' True None
                  pending_world))) = Decided"
proof -
  have deferred: "\<not> raises env_no_requester Defer"
    and lookup: "raises env_no_requester (FetchUser (solicitante_id sample_task))"
    and sent: "\<not> raises env_no_requester (FollowupSend RequesterLookupErrorEmbed)"
    by (simp_all add: env_no_requester_def env_at_def sample_task_def)
  have empty: "trace pending_world = []"
    by (simp add: pending_world_def sample_world_def fresh_world_def)
  note kept = requester_lookup_failure_keeps_entry [OF sample_found deferred lookup,
      of decide_interaction True None]
  from kept env_at_quiet [of 3000 "[infra]"]
  have later: "fst (handle_approval (env_at 3000 [infra]) decide_interaction ''11_900'' False
      (Some ''late'')
      (snd (handle_approval env_no_requester decide_interaction ''11_900'' True None
              pending_world))) = Decided"
    by blast
  from kept sent
  have now_: "fst (handle_approval env_no_requester decide_interaction ''11_900'' True None
        pending_world) \<in> {LookupFailed, Raised} \<and>
      snd (handle_approval env_no_requester decide_interaction ''11_900'' True None pending_world) =
        pending_world\<lparr>trace := [Defer, FetchUser 11, FollowupSend RequesterLookupErrorEmbed]\<rparr>"
    by (simp add: sample_valid empty)
  from now_ later show ?thesis
    by blast
qed


text \<open>
  Claim C1, as the specification states it: of two calls of \<open>handle_approval\<close> that race
  on one id, at most one carries out its decision. The handler looks the id up at line
  146 and removes it at line 390, with every \<open>await\<close> of the decision in between and no
  lock. When the second call does its lookup while the first is suspended in
  \<open>await fetch_user\<close>, both find the entry, both end with the decision carried out, and
  two work packages are requested from the server.
\<close>

theorem interleaved_approvals_counterexample:
  "\<not> (\<forall>e1 i1 approved1 reason1 e2 i2 approved2 reason2 tid w.
        \<not> (fst (interleaved_approvals e1 i1 approved1 reason1 e2 i2 approved2 reason2 tid w)
              = Decided \<and>
           fst (snd (interleaved_approvals e1 i1 approved1 reason1 e2 i2 approved2 reason2 tid w))
              = Decided))"
proof
  assume claim: "\<forall>e1 i1 approved1 reason1 e2 i2 approved2 reason2 tid w.
        \<not> (fst (interleaved_approvals e1 i1 approved1 reason1 e2 i2 approved2 reason2 tid w)
              = Decided \<and>
           fst (snd (interleaved_approvals e1 i1 approved1 reason1 e2 i2 approved2 reason2 tid w))
              = Decided)"
  have "fst (interleaved_approvals (env_at 2000 [infra]) decide_interaction True None
               (env_at 2001 [infra]) decide_interaction True None ''11_900'' pending_world)
          = Decided \<and>
        fst (snd (interleaved_approvals (env_at 2000 [infra]) decide_interaction True None
               (env_at 2001 [infra]) decide_interaction True None ''11_900'' pending_world))
          = Decided \<and>
        posts (snd (snd (interleaved_approvals (env_at 2000 [infra]) decide_interaction True None
               (env_at 2001 [infra]) decide_interaction True None ''11_900'' pending_world)))
          = posts pending_world + 2"
    by (rule interleaved_approvals_both_act [OF sample_found env_at_quiet env_at_quiet
          env_at_replies(1) _ env_at_replies(1) _ env_at_replies(2) _ env_at_replies(2) _
          sample_conf sample_valid(1,2)]) simp_all
  with claim show False
    by blast
qed

text \<open>
  Claim C1, amended to calls that follow one another: when a first call of
  \<open>handle_approval\<close> has carried out its decision and reached the removal, the id is no
  longer registered, and a second call on the id, approval or rejection, only defers and
  sends the "not found" embed (or the general error message, when one of these two calls
  raises): it issues no HTTP request, sends nothing to the requester and leaves the
  registry as it is.
\<close>

theorem successive_approvals_act_once:
  assumes "handle_approval e1 i1 tid approved1 reason1 w = (Decided, w1)"
  shows "get_pending_task tid (pending_tasks w1) = None \<and>
         successive_approvals e1 i1 approved1 reason1 e2 i2 approved2 reason2 tid w =
           (Decided,
            if raises e2 Defer \<or> raises e2 (FollowupSend NotFoundEmbed) then Raised
            else NotFound,
            w1\<lparr>trace := trace w1 @
                (if raises e2 Defer then [Defer, FollowupSend GenericErrorMessage]
                 else if raises e2 (FollowupSend NotFoundEmbed)
                 then [Defer, FollowupSend NotFoundEmbed, FollowupSend GenericErrorMessage]
                 else [Defer, FollowupSend NotFoundEmbed])\<rparr>)"
proof -
  have gone: "get_pending_task tid (pending_tasks w1) = None"
    using assms by (rule handle_approval_Decided)
  show ?thesis
    using gone by (simp add: successive_approvals_def assms handle_approval_absent [OF gone])
qed

theorem successive_approvals_act_once_witness:
  "successive_approvals (env_at 2000 [infra]) decide_interaction True None
       (env_at 2001 [infra]) decide_interaction True None ''11_900'' pending_world =
     (Decided, NotFound,
      (snd (handle_approval (env_at 2000 [infra]) decide_interaction ''11_900'' True None
              pending_world))
        \<lparr>trace := trace (snd (handle_approval (env_at 2000 [infra]) decide_interaction ''11_900''
                                 True None pending_world))
                   @ [Defer, FollowupSend NotFoundEmbed]\<rparr>) \<and>
   posts (snd (handle_approval (env_at 2000 [infra]) decide_interaction ''11_900'' True None
                 pending_world)) = 1"
proof -
  have first: "fst (handle_approval (env_at 2000 [infra]) decide_interaction ''11_900'' True None
                      pending_world) = Decided \<and>
      posts (snd (handle_approval (env_at 2000 [infra]) decide_interaction ''11_900'' True None
                    pending_world)) = posts pending_world + 1"
    by (rule handle_approval_succeeds [OF sample_found env_at_quiet env_at_replies(1) _
          env_at_replies(2) _ sample_conf sample_valid(1,2)]) simp_all
  then have run: "handle_approval (env_at 2000 [infra]) decide_interaction ''11_900'' True None
      pending_world =
        (Decided, snd (handle_approval (env_at 2000 [infra]) decide_interaction ''11_900'' True
                         None pending_world))"
    by (simp add: prod_eq_iff)
  have "posts pending_world = 0"
    by (simp add: pending_world_def sample_world_def fresh_world_def posts_def)
  with successive_approvals_act_once [OF run, of "env_at 2001 [infra]" decide_interaction
      True None] first env_at_quiet [of 2001 "[infra]"]
  show ?thesis
    by simp
qed

lemmas date_eval = validate_date_def matches_date_regex_def newline_def parse_date_def
  py_int_def strip_def py_space_def py_int_unsigned_def nat_of_digits_def digit_value_def
  datetime_def days_in_month_def is_leap_def compare_dates_def datetime_less_def
  ascii_digit_def isdigit_def isdigit_char_def truthy_def

lemma sample_modal_passes: "\<not> validation_fails sample_modal"
  by (simp add: validation_fails_def sample_modal_def date_eval)



end
